theory Spec2Isabelle
  imports Complex_Main
begin

section \<open>The XML model-serialisation layer of gammapy (utils/modeling.py)\<close>

text \<open>
  A shallow embedding of \<^verbatim>\<open>gammapy/utils/modeling.py\<close>: \<^verbatim>\<open>Parameter\<close>,
  \<^verbatim>\<open>ParameterList\<close>, the spectral and spatial model variants, \<^verbatim>\<open>SourceModel\<close> and
  \<^verbatim>\<open>SourceLibrary\<close>.

  Conventions of the embedding.
  \<^item> A Python float is read as the real number it denotes; the rounding of \<^verbatim>\<open>1 / x\<close> and of
    squares and the non-finite floats are outside the model. Division by a zero float raises
    \<^verbatim>\<open>ZeroDivisionError\<close>, and the model says so.
  \<^item> Every \<^verbatim>\<open>raise\<close> is the \<open>Inl\<close> branch of a result \<open>error + 'a\<close>.
  \<^item> What the module takes from outside the repository (the builtins \<^verbatim>\<open>float\<close>,
    \<^verbatim>\<open>repr\<close> and \<^verbatim>\<open>str.format\<close>, astropy's units, the \<^verbatim>\<open>uncertainties\<close>
    package) is a field of the record \<open>builtins\<close>, passed to every function that
    calls one of them: the theorems hold for whatever these functions compute.
  \<^item> The source file carries unresolved merge markers; where the two sides differ the model
    follows the \<^verbatim>\<open>HEAD\<close> side (numpy is imported, so \<^verbatim>\<open>np.diag\<close> is defined).
\<close>

subsection \<open>Errors\<close>

datatype error =
    KeyError string
  | TypeError
  | AttributeError
  | ValueError string
  | IndexError string
  | UnknownModelError string
  | ZeroDivisionError
  | LinAlgError
  | LibraryError string

text \<open>Sequencing of fallible steps: the first exception ends the computation.\<close>

fun and_then :: "error + 'a \<Rightarrow> ('a \<Rightarrow> error + 'b) \<Rightarrow> error + 'b" where
  "and_then (Inl e) f = Inl e"
| "and_then (Inr x) f = f x"

text \<open>A list comprehension or a \<^verbatim>\<open>for\<close> loop that appends: the elements in order, stopping
  at the first exception.\<close>

fun for_each :: "('a \<Rightarrow> error + 'b) \<Rightarrow> 'a list \<Rightarrow> error + 'b list" where
  "for_each f [] = Inr []"
| "for_each f (x # xs) =
     and_then (f x) (\<lambda>y. and_then (for_each f xs) (\<lambda>ys. Inr (y # ys)))"

subsection \<open>The dictionaries xmltodict yields\<close>

text \<open>
  \<^verbatim>\<open>xmltodict.parse\<close> turns an element into a dict whose keys are its attributes (prefixed
  with \<^verbatim>\<open>@\<close>, the values strings) and the tags of its children (a child that occurs once is
  its own value, a repeated child is the list of the values); an element with text only is
  a string, an empty element is \<^verbatim>\<open>None\<close>. \<open>Elem attrs children\<close> is such a dict: the
  attribute keys are stored with their \<^verbatim>\<open>@\<close>.
\<close>

datatype xml =
    Text string
  | Null
  | Elem "(string \<times> string) list" "(string \<times> xml) list"
  | Many "xml list"

text \<open>\<^verbatim>\<open>data['@key']\<close>: an attribute. A string, a list and \<^verbatim>\<open>None\<close> take no string index.\<close>

fun attr :: "xml \<Rightarrow> string \<Rightarrow> error + string" where
  "attr (Elem as cs) k = (case map_of as k of None \<Rightarrow> Inl (KeyError k) | Some v \<Rightarrow> Inr v)"
| "attr _ k = Inl TypeError"

text \<open>\<^verbatim>\<open>data['key']\<close>: a child.\<close>

fun item :: "xml \<Rightarrow> string \<Rightarrow> error + xml" where
  "item (Elem as cs) k = (case map_of cs k of None \<Rightarrow> Inl (KeyError k) | Some v \<Rightarrow> Inr v)"
| "item _ k = Inl TypeError"

text \<open>\<^verbatim>\<open>'key' in data\<close> for the tag of a child, \<^verbatim>\<open>data\<close> a dict.\<close>

fun has_child :: "xml \<Rightarrow> string \<Rightarrow> bool" where
  "has_child (Elem as cs) k = (map_of cs k \<noteq> None)"
| "has_child _ k = False"

text \<open>\<^verbatim>\<open>for _ in data\<close>: a list gives its elements, a dict its keys, a string its characters;
  \<^verbatim>\<open>None\<close> is not iterable.\<close>

fun iter :: "xml \<Rightarrow> error + xml list" where
  "iter (Many xs) = Inr xs"
| "iter (Elem as cs) = Inr (map (\<lambda>kv. Text (fst kv)) as @ map (\<lambda>kv. Text (fst kv)) cs)"
| "iter (Text s) = Inr (map (\<lambda>c. Text [c]) s)"
| "iter Null = Inl TypeError"

subsection \<open>What the module calls outside the repository\<close>

datatype Quantity = Quantity (qvalue: real) (qunit: string)

datatype ufloat = ufloat (nominal: real) (std_dev: real)

record builtins =
  py_float :: "string \<Rightarrow> error + real"
  str_float :: "real \<Rightarrow> string"
  repr_float :: "real \<Rightarrow> string"
  repr_str :: "string \<Rightarrow> string"
  str_array :: "real list list \<Rightarrow> string"
  str_dict :: "xml \<Rightarrow> string"
  u_Unit :: "string \<Rightarrow> error + string"
  q_to :: "Quantity \<Rightarrow> string \<Rightarrow> error + Quantity"
  correlated_values :: "real list \<Rightarrow> real list list option \<Rightarrow> error + ufloat list"
  xmltodict_parse :: "string \<Rightarrow> error + xml"

text \<open>
  \<open>py_float\<close> is \<^verbatim>\<open>float(s)\<close>; \<open>str_float\<close> is \<^verbatim>\<open>'{}'.format(x)\<close> of a float and
  \<open>repr_float\<close>, \<open>repr_str\<close> are \<^verbatim>\<open>repr\<close>; \<open>str_array\<close> is \<^verbatim>\<open>str\<close> of a numpy
  matrix and \<open>str_dict\<close> of a dict; \<open>u_Unit\<close> is \<^verbatim>\<open>astropy.units.Unit(s)\<close> (the unit is
  kept as its string), \<open>q_to\<close> is \<^verbatim>\<open>Quantity.to(unit)\<close>, and \<open>correlated_values\<close> is the
  function of that name of the \<^verbatim>\<open>uncertainties\<close> package. \<open>xmltodict_parse\<close> is the
  parser the module imports from \<^verbatim>\<open>gammapy.extern\<close>.
\<close>

subsection \<open>Parameter\<close>

record Parameter =
  name :: string
  val :: real
  unit :: string
  parmin :: "real option"
  parmax :: "real option"
  frozen :: bool

text \<open>\<^verbatim>\<open>Parameter(name, value, unit)\<close> with a float value: the bounds default to \<^verbatim>\<open>None\<close>,
  \<^verbatim>\<open>frozen\<close> to \<^verbatim>\<open>False\<close>.\<close>

definition Parameter_init :: "string \<Rightarrow> real \<Rightarrow> string \<Rightarrow> Parameter" where
  "Parameter_init n v u =
     \<lparr>name = n, val = v, unit = u, parmin = None, parmax = None, frozen = False\<rparr>"

definition repr_opt :: "builtins \<Rightarrow> real option \<Rightarrow> string" where
  "repr_opt B x = (case x of None \<Rightarrow> ''None'' | Some v \<Rightarrow> repr_float B v)"

definition repr_bool :: "bool \<Rightarrow> string" where
  "repr_bool b = (if b then ''True'' else ''False'')"

definition Parameter_str :: "builtins \<Rightarrow> Parameter \<Rightarrow> string" where
  "Parameter_str B p =
     ''Parameter(name='' @ repr_str B (name p) @ '', value='' @ repr_float B (val p)
     @ '', unit='' @ repr_str B (unit p) @ '', min='' @ repr_opt B (parmin p)
     @ '', max='' @ repr_opt B (parmax p) @ '', frozen='' @ repr_bool (frozen p) @ '')''"

text \<open>\<^verbatim>\<open>Parameter.from_dict_xml\<close>: \<^verbatim>\<open>data.get\<close> first (only a dict has it), then the name,
  then the value and its coercion.\<close>

fun from_dict_xml :: "builtins \<Rightarrow> xml \<Rightarrow> error + Parameter" where
  "from_dict_xml B (Elem as cs) =
     (let u = (case map_of as ''@unit'' of None \<Rightarrow> '''' | Some s \<Rightarrow> s) in
      and_then (attr (Elem as cs) ''@name'') (\<lambda>n.
      and_then (attr (Elem as cs) ''@value'') (\<lambda>s.
      and_then (py_float B s) (\<lambda>v.
      Inr (Parameter_init n v u)))))"
| "from_dict_xml B _ = Inl AttributeError"

text \<open>The catalog's dicts \<^verbatim>\<open>{name, val, unit}\<close>, \<^verbatim>\<open>val\<close> a string.\<close>

definition from_dict_gammacat :: "builtins \<Rightarrow> (string \<rightharpoonup> string) \<Rightarrow> error + Parameter" where
  "from_dict_gammacat B d =
     (case d ''name'' of None \<Rightarrow> Inl (KeyError ''name'') | Some n \<Rightarrow>
     (case d ''val'' of None \<Rightarrow> Inl (KeyError ''val'') | Some s \<Rightarrow>
      and_then (py_float B s) (\<lambda>v.
     (case d ''unit'' of None \<Rightarrow> Inl (KeyError ''unit'') | Some u \<Rightarrow>
      Inr (Parameter_init n v u)))))"

definition dq :: string where
  "dq = [CHR 0x22]"

definition nl :: string where
  "nl = [CHR 0x0A]"

definition Parameter_to_xml :: "builtins \<Rightarrow> Parameter \<Rightarrow> string" where
  "Parameter_to_xml B p =
     ''        <parameter name='' @ dq @ name p @ dq @ '' value='' @ dq @ str_float B (val p) @ dq
     @ '' unit='' @ dq @ unit p @ dq @ ''/>''"

subsection \<open>ParameterList\<close>

record ParameterList =
  parameters :: "Parameter list"
  covariance :: "real list list option"

text \<open>\<^verbatim>\<open>ParameterList(parameters)\<close>: the covariance defaults to \<^verbatim>\<open>None\<close>.\<close>

definition ParameterList_init :: "Parameter list \<Rightarrow> ParameterList" where
  "ParameterList_init ps = \<lparr>parameters = ps, covariance = None\<rparr>"

definition str_covariance :: "builtins \<Rightarrow> real list list option \<Rightarrow> string" where
  "str_covariance B c = (case c of None \<Rightarrow> ''None'' | Some m \<Rightarrow> str_array B m)"

definition ParameterList_str :: "builtins \<Rightarrow> ParameterList \<Rightarrow> string" where
  "ParameterList_str B pl =
     ''ParameterList'' @ concat (map (\<lambda>p. nl @ Parameter_str B p) (parameters pl))
     @ nl @ nl @ ''Covariance: '' @ str_covariance B (covariance pl)"

text \<open>\<^verbatim>\<open>__getitem__\<close>: the loop returns at the first parameter of that name; the loop
  running out raises \<^verbatim>\<open>IndexError\<close>.\<close>

fun getitem_loop :: "string \<Rightarrow> Parameter list \<Rightarrow> Parameter option" where
  "getitem_loop n [] = None"
| "getitem_loop n (par # pars) = (if n = name par then Some par else getitem_loop n pars)"

definition getitem :: "builtins \<Rightarrow> ParameterList \<Rightarrow> string \<Rightarrow> error + Parameter" where
  "getitem B pl n =
     (case getitem_loop n (parameters pl) of
        Some par \<Rightarrow> Inr par
      | None \<Rightarrow>
          Inl (IndexError (''Parameter '' @ n @ '' not found for : '' @ ParameterList_str B pl)))"

definition from_list_of_dict_gammacat ::
  "builtins \<Rightarrow> (string \<rightharpoonup> string) list \<Rightarrow> error + ParameterList" where
  "from_list_of_dict_gammacat B ds =
     and_then (for_each (from_dict_gammacat B) ds) (\<lambda>ps. Inr (ParameterList_init ps))"

definition from_list_of_dict_xml :: "builtins \<Rightarrow> xml \<Rightarrow> error + ParameterList" where
  "from_list_of_dict_xml B d =
     and_then (iter d) (\<lambda>xs.
     and_then (for_each (from_dict_xml B) xs) (\<lambda>ps. Inr (ParameterList_init ps)))"

text \<open>\<^verbatim>\<open>'\\n'.join\<close>.\<close>

fun join_nl :: "string list \<Rightarrow> string" where
  "join_nl [] = []"
| "join_nl [s] = s"
| "join_nl (s # t # ss) = s @ nl @ join_nl (t # ss)"

definition ParameterList_to_xml :: "builtins \<Rightarrow> ParameterList \<Rightarrow> string" where
  "ParameterList_to_xml B pl = join_nl (map (Parameter_to_xml B) (parameters pl))"


text \<open>\<^verbatim>\<open>np.diag(values) ** 2\<close>: the square matrix with the values on its diagonal, squared
  entry by entry.\<close>

definition np_diag :: "real list \<Rightarrow> real list list" where
  "np_diag vs =
     map (\<lambda>i. map (\<lambda>j. if i = j then vs ! i else 0) [0 ..< length vs]) [0 ..< length vs]"

definition np_square :: "real list list \<Rightarrow> real list list" where
  "np_square m = map (map (\<lambda>x. x * x)) m"

text \<open>\<^verbatim>\<open>set_parameter_errors\<close>. The default \<^verbatim>\<open>0 * u.Unit(par.unit)\<close> is an argument of
  \<^verbatim>\<open>errors.get\<close>, so it is built (and can raise) whether or not the name is in the dict.\<close>

definition error_value :: "builtins \<Rightarrow> (string \<rightharpoonup> Quantity) \<Rightarrow> Parameter \<Rightarrow> error + real" where
  "error_value B errors par =
     and_then (u_Unit B (unit par)) (\<lambda>u.
       let quantity = (case errors (name par) of None \<Rightarrow> Quantity 0 u | Some q \<Rightarrow> q) in
       and_then (q_to B quantity (unit par)) (\<lambda>q'. Inr (qvalue q')))"

definition set_parameter_errors ::
  "builtins \<Rightarrow> ParameterList \<Rightarrow> (string \<rightharpoonup> Quantity) \<Rightarrow> error + ParameterList" where
  "set_parameter_errors B pl errors =
     and_then (for_each (error_value B errors) (parameters pl)) (\<lambda>values.
       Inr (pl\<lparr>covariance := Some (np_square (np_diag values))\<rparr>))"

subsection \<open>Spectral models\<close>

datatype SpectralClass = SpectralModelPowerLaw | SpectralModelPowerLaw2 | SpectralModelExpCutoff

text \<open>An instance: its class and the \<^verbatim>\<open>parameters\<close> that \<^verbatim>\<open>BaseModel.__init__\<close> stores (a
  \<^verbatim>\<open>ParameterList\<close> as it is, a list wrapped into one).\<close>

datatype SpectralModel =
  SpectralModel (spectral_class: SpectralClass) (spectral_parameters: ParameterList)

fun spectral_xml_type :: "SpectralClass \<Rightarrow> string" where
  "spectral_xml_type SpectralModelPowerLaw = ''PowerLaw''"
| "spectral_xml_type SpectralModelPowerLaw2 = ''PowerLaw2''"
| "spectral_xml_type SpectralModelExpCutoff = ''ExpCutoff''"

text \<open>\<^verbatim>\<open>SpectralModel.from_xml_dict\<close>: the type tag and the parameters are read before the
  chain of comparisons. The message of the last branch says "spatial" in the source.\<close>

definition SpectralModel_from_xml_dict :: "builtins \<Rightarrow> xml \<Rightarrow> error + SpectralModel" where
  "SpectralModel_from_xml_dict B data =
     and_then (attr data ''@type'') (\<lambda>model_type.
     and_then (item data ''parameter'') (\<lambda>d.
     and_then (from_list_of_dict_xml B d) (\<lambda>ps.
       if model_type = spectral_xml_type SpectralModelPowerLaw
         then Inr (SpectralModel SpectralModelPowerLaw ps)
       else if model_type = spectral_xml_type SpectralModelPowerLaw2
         then Inr (SpectralModel SpectralModelPowerLaw2 ps)
       else if model_type = spectral_xml_type SpectralModelExpCutoff
         then Inr (SpectralModel SpectralModelExpCutoff ps)
       else Inl (UnknownModelError (''Unknown spatial model: '' @ model_type)))))"

definition SpectralModelPowerLaw_from_plist ::
  "builtins \<Rightarrow> ParameterList \<Rightarrow> error + SpectralModel" where
  "SpectralModelPowerLaw_from_plist B plist =
     and_then (getitem B plist ''amplitude'') (\<lambda>par.
       let prefactor = Parameter_init ''Prefactor'' (val par) (unit par) in
     and_then (getitem B plist ''index'') (\<lambda>par.
       let index = Parameter_init ''Index'' (- val par) (unit par) in
     and_then (getitem B plist ''reference'') (\<lambda>par.
       let scale = Parameter_init ''Scale'' (val par) (unit par) in
     Inr (SpectralModel SpectralModelPowerLaw
            (ParameterList_init [prefactor, index, scale])))))"

definition SpectralModelPowerLaw2_from_plist ::
  "builtins \<Rightarrow> ParameterList \<Rightarrow> error + SpectralModel" where
  "SpectralModelPowerLaw2_from_plist B plist =
     and_then (getitem B plist ''amplitude'') (\<lambda>par.
       let integral = Parameter_init ''Integral'' (val par) (unit par) in
     and_then (getitem B plist ''index'') (\<lambda>par.
       let index = Parameter_init ''Index'' (- val par) (unit par) in
     and_then (getitem B plist ''emin'') (\<lambda>par.
       let lower_limit = Parameter_init ''LowerLimit'' (val par) (unit par) in
     and_then (getitem B plist ''emax'') (\<lambda>par.
       let upper_limit = Parameter_init ''UpperLimit'' (val par) (unit par) in
     Inr (SpectralModel SpectralModelPowerLaw2
            (ParameterList_init [integral, index, lower_limit, upper_limit]))))))"

text \<open>\<^verbatim>\<open>1 / par.value\<close> raises on a zero float.\<close>

definition SpectralModelExpCutoff_from_plist ::
  "builtins \<Rightarrow> ParameterList \<Rightarrow> error + SpectralModel" where
  "SpectralModelExpCutoff_from_plist B plist =
     and_then (getitem B plist ''amplitude'') (\<lambda>par.
       let prefactor = Parameter_init ''Prefactor'' (val par) (unit par) in
     and_then (getitem B plist ''index'') (\<lambda>par.
       let index = Parameter_init ''Index'' (val par) (unit par) in
     and_then (getitem B plist ''lambda_'') (\<lambda>par.
     and_then (if val par = 0 then Inl ZeroDivisionError else Inr (1 / val par)) (\<lambda>inv.
       let cutoff = Parameter_init ''Cutoff'' inv (unit par) in
     and_then (getitem B plist ''reference'') (\<lambda>par.
       let scale = Parameter_init ''Scale'' (val par) (unit par) in
     Inr (SpectralModel SpectralModelExpCutoff
            (ParameterList_init [prefactor, index, cutoff, scale])))))))"

definition SpectralModel_to_xml :: "builtins \<Rightarrow> SpectralModel \<Rightarrow> string" where
  "SpectralModel_to_xml B m =
     ''<spectrum type='' @ dq @ spectral_xml_type (spectral_class m) @ dq @ ''>'' @ nl
     @ ParameterList_to_xml B (spectral_parameters m) @ nl @ ''    </spectrum>''"

subsection \<open>Spatial models\<close>

datatype SpatialClass = SpatialModelPoint | SpatialModelGauss | SpatialModelShell

datatype SpatialModel =
  SpatialModel (spatial_class: SpatialClass) (spatial_parameters: ParameterList)

fun xml_source_type :: "SpatialClass \<Rightarrow> string" where
  "xml_source_type SpatialModelPoint = ''PointSource''"
| "xml_source_type SpatialModelGauss = ''ExtendedSource''"
| "xml_source_type SpatialModelShell = ''ExtendedSource''"

fun spatial_xml_type :: "SpatialClass \<Rightarrow> string" where
  "spatial_xml_type SpatialModelPoint = ''Point''"
| "spatial_xml_type SpatialModelGauss = ''Gauss''"
| "spatial_xml_type SpatialModelShell = ''Shell''"

fun spatial_xml_types :: "SpatialClass \<Rightarrow> string list" where
  "spatial_xml_types SpatialModelPoint = [spatial_xml_type SpatialModelPoint]"
| "spatial_xml_types SpatialModelGauss = [spatial_xml_type SpatialModelGauss, ''Gaussian'']"
| "spatial_xml_types SpatialModelShell = [spatial_xml_type SpatialModelShell, ''RadialShell'']"

text \<open>\<^verbatim>\<open>SpatialModel.from_xml_dict\<close>: every branch passes the empty list \<^verbatim>\<open>parameters=[]\<close>;
  \<^verbatim>\<open>data['parameter']\<close> is never read.\<close>

definition SpatialModel_from_xml_dict :: "xml \<Rightarrow> error + SpatialModel" where
  "SpatialModel_from_xml_dict data =
     and_then (attr data ''@type'') (\<lambda>model_type.
       if model_type \<in> set (spatial_xml_types SpatialModelPoint)
         then Inr (SpatialModel SpatialModelPoint (ParameterList_init []))
       else if model_type \<in> set (spatial_xml_types SpatialModelGauss)
         then Inr (SpatialModel SpatialModelGauss (ParameterList_init []))
       else if model_type \<in> set (spatial_xml_types SpatialModelShell)
         then Inr (SpatialModel SpatialModelShell (ParameterList_init []))
       else Inl (UnknownModelError (''Unknown spatial model: '' @ model_type)))"

text \<open>A field of the catalog's \<^verbatim>\<open>source.data\<close>: a quantity, or a plain value, which has no
  \<^verbatim>\<open>.value\<close>.\<close>

datatype catalog_value = CatQuantity Quantity | CatPlain string

definition quantity_field :: "(string \<rightharpoonup> catalog_value) \<Rightarrow> string \<Rightarrow> error + Quantity" where
  "quantity_field d k =
     (case d k of
        None \<Rightarrow> Inl (KeyError k)
      | Some (CatPlain s) \<Rightarrow> Inl AttributeError
      | Some (CatQuantity q) \<Rightarrow> Inr q)"

definition SpatialModelPoint_from_gammacat ::
  "(string \<rightharpoonup> catalog_value) \<Rightarrow> error + SpatialModel" where
  "SpatialModelPoint_from_gammacat d =
     and_then (quantity_field d ''glon'') (\<lambda>q.
       let glon = Parameter_init ''GLON'' (qvalue q) (qunit q) in
     and_then (quantity_field d ''glat'') (\<lambda>q.
       let glat = Parameter_init ''GLAT'' (qvalue q) (qunit q) in
     Inr (SpatialModel SpatialModelPoint (ParameterList_init [glon, glat]))))"

definition SpatialModelGauss_from_gammacat ::
  "(string \<rightharpoonup> catalog_value) \<Rightarrow> error + SpatialModel" where
  "SpatialModelGauss_from_gammacat d =
     and_then (quantity_field d ''glon'') (\<lambda>q.
       let glon = Parameter_init ''GLON'' (qvalue q) (qunit q) in
     and_then (quantity_field d ''glat'') (\<lambda>q.
       let glat = Parameter_init ''GLAT'' (qvalue q) (qunit q) in
     and_then (quantity_field d ''morph_sigma'') (\<lambda>q.
       let sigma = Parameter_init ''Sigma'' (qvalue q) (qunit q) in
     Inr (SpatialModel SpatialModelGauss (ParameterList_init [glon, glat, sigma])))))"

definition SpatialModelShell_from_gammacat ::
  "(string \<rightharpoonup> catalog_value) \<Rightarrow> error + SpatialModel" where
  "SpatialModelShell_from_gammacat d =
     and_then (quantity_field d ''glon'') (\<lambda>q.
       let glon = Parameter_init ''GLON'' (qvalue q) (qunit q) in
     and_then (quantity_field d ''glat'') (\<lambda>q.
       let glat = Parameter_init ''GLAT'' (qvalue q) (qunit q) in
     and_then (quantity_field d ''morph_sigma'') (\<lambda>q.
       let radius = Parameter_init ''Radius'' (qvalue q) (qunit q);
           width = Parameter_init ''Width'' 0 ''deg'' in
     Inr (SpatialModel SpatialModelShell (ParameterList_init [glon, glat, radius, width])))))"

definition SpatialModel_to_xml :: "builtins \<Rightarrow> SpatialModel \<Rightarrow> string" where
  "SpatialModel_to_xml B m =
     ''<spatialModel type='' @ dq @ spatial_xml_type (spatial_class m) @ dq @ ''>'' @ nl
     @ ParameterList_to_xml B (spatial_parameters m) @ nl @ ''    </spatialModel>''"

subsection \<open>SourceModel and SourceLibrary\<close>

record SourceModel =
  source_name :: string
  source_type :: string
  spatial_model :: SpatialModel
  spectral_model :: SpectralModel

text \<open>\<^verbatim>\<open>SourceModel.from_xml_dict\<close>: name, type and spectrum are read first, then the spatial
  container is chosen.\<close>

definition SourceModel_from_xml_dict :: "builtins \<Rightarrow> xml \<Rightarrow> error + SourceModel" where
  "SourceModel_from_xml_dict B data =
     and_then (attr data ''@name'') (\<lambda>n.
     and_then (attr data ''@type'') (\<lambda>t.
     and_then (item data ''spectrum'') (\<lambda>sp.
     and_then (SpectralModel_from_xml_dict B sp) (\<lambda>spectral.
     and_then
       (if has_child data ''radialModel''
          then and_then (item data ''radialModel'') SpatialModel_from_xml_dict
        else if has_child data ''spatialModel''
          then and_then (item data ''spatialModel'') SpatialModel_from_xml_dict
        else Inl (UnknownModelError
               (''No spatial / radial model found for: '' @ str_dict B data)))
       (\<lambda>spatial.
     Inr \<lparr>source_name = n, source_type = t,
          spatial_model = spatial, spectral_model = spectral\<rparr>)))))"

definition SourceModel_to_xml :: "builtins \<Rightarrow> SourceModel \<Rightarrow> string" where
  "SourceModel_to_xml B s =
     ''<source name='' @ dq @ source_name s @ dq @ '' type='' @ dq @ source_type s @ dq
     @ ''>'' @ nl
     @ ''    '' @ SpectralModel_to_xml B (spectral_model s) @ nl
     @ ''    '' @ SpatialModel_to_xml B (spatial_model s) @ nl
     @ ''</source>'' @ nl"

datatype SourceLibrary = SourceLibrary (source_list: "SourceModel list")

definition from_list_of_dict :: "builtins \<Rightarrow> xml \<Rightarrow> error + SourceLibrary" where
  "from_list_of_dict B data =
     and_then (iter data) (\<lambda>xs.
     and_then (for_each (SourceModel_from_xml_dict B) xs) (\<lambda>l. Inr (SourceLibrary l)))"

definition from_xml :: "builtins \<Rightarrow> string \<Rightarrow> error + SourceLibrary" where
  "from_xml B x =
     and_then (xmltodict_parse B x) (\<lambda>full_dict.
     and_then (item full_dict ''source_library'') (\<lambda>lib.
     and_then (item lib ''source'') (\<lambda>sources_dict.
     from_list_of_dict B sources_dict)))"

definition to_xml :: "builtins \<Rightarrow> SourceLibrary \<Rightarrow> string \<Rightarrow> string \<Rightarrow> string" where
  "to_xml B l title header =
     ''<?xml version='' @ dq @ ''1.0'' @ dq @ '' ?>'' @ nl
     @ header @ nl
     @ ''<source_library title='' @ dq @ title @ dq @ ''>'' @ nl
     @ nl
     @ join_nl (map (SourceModel_to_xml B) (source_list l)) @ nl
     @ ''</source_library>'' @ nl"

subsection \<open>What a round trip is to reconstruct\<close>

text \<open>The name/value/unit triples of a parameter list, and two sources that agree on name,
  type and the triples of both models: the comparison the round-trip property is stated
  with.\<close>

definition triples :: "ParameterList \<Rightarrow> (string \<times> real \<times> string) list" where
  "triples pl = map (\<lambda>p. (name p, val p, unit p)) (parameters pl)"

definition same_source :: "SourceModel \<Rightarrow> SourceModel \<Rightarrow> bool" where
  "same_source a b =
     (source_name a = source_name b \<and> source_type a = source_type b
      \<and> triples (spectral_parameters (spectral_model a))
          = triples (spectral_parameters (spectral_model b))
      \<and> triples (spatial_parameters (spatial_model a))
          = triples (spatial_parameters (spatial_model b)))"

definition reconstructs :: "SourceLibrary \<Rightarrow> SourceLibrary \<Rightarrow> bool" where
  "reconstructs a b = list_all2 same_source (source_list a) (source_list b)"

subsection \<open>Sample data\<close>

text \<open>An instance of the outside functions to run the model on concrete inputs: \<^verbatim>\<open>float\<close>
  on a few literals, units that convert to themselves only, and a correlation routine that
  rejects an absent matrix.\<close>

definition sample_float :: "string \<Rightarrow> error + real" where
  "sample_float s =
     (case map_of [(''-2.3'', - 23 / 10), (''2.3'', 23 / 10), (''1e-12'', 1 / 10 ^ 12),
                   (''1'', 1), (''0.3'', 3 / 10)] s of
        None \<Rightarrow> Inl (ValueError ''could not convert string to float'')
      | Some v \<Rightarrow> Inr v)"

definition sample_to :: "Quantity \<Rightarrow> string \<Rightarrow> error + Quantity" where
  "sample_to q u = (if qunit q = u then Inr q else Inl (LibraryError ''UnitConversionError''))"

definition sample_correlated_values ::
  "real list \<Rightarrow> real list list option \<Rightarrow> error + ufloat list" where
  "sample_correlated_values vs c =
     (case c of
        None \<Rightarrow> Inl LinAlgError
      | Some m \<Rightarrow> Inr (map (\<lambda>i. ufloat (vs ! i) (sqrt (m ! i ! i))) [0 ..< length vs]))"

definition sample_builtins :: builtins where
  "sample_builtins =
     \<lparr>py_float = sample_float,
      str_float = (\<lambda>x. ''<float>''),
      repr_float = (\<lambda>x. ''<float>''),
      repr_str = (\<lambda>s. [CHR 0x27] @ s @ [CHR 0x27]),
      str_array = (\<lambda>m. ''<array>''),
      str_dict = (\<lambda>d. ''<dict>''),
      u_Unit = Inr,
      q_to = sample_to,
      correlated_values = sample_correlated_values,
      xmltodict_parse = (\<lambda>s. Inl (LibraryError ''ExpatError''))\<rparr>"

text \<open>A library of one point source, with the two position parameters that
  \<^verbatim>\<open>SpatialModelPoint.from_gammacat\<close> builds.\<close>

definition crab :: SourceModel where
  "crab =
     \<lparr>source_name = ''Crab'', source_type = ''PointSource'',
      spatial_model = SpatialModel SpatialModelPoint
        (ParameterList_init
           [Parameter_init ''GLON'' (1845 / 10) ''deg'', Parameter_init ''GLAT'' (- 58 / 10) ''deg'']),
      spectral_model = SpectralModel SpectralModelPowerLaw
        (ParameterList_init
           [Parameter_init ''Prefactor'' (1 / 10 ^ 12) ''cm-2 s-1 TeV-1'',
            Parameter_init ''Index'' (- 23 / 10) [],
            Parameter_init ''Scale'' 1 ''TeV''])\<rparr>"

definition crab_library :: SourceLibrary where
  "crab_library = SourceLibrary [crab]"

text \<open>A catalog parameter list with every name the three \<^verbatim>\<open>from_plist\<close> constructors
  look up, and the spectrum of a source dict.\<close>

definition catalog_plist :: ParameterList where
  "catalog_plist =
     \<lparr>parameters =
        [\<lparr>name = ''amplitude'', val = 3, unit = ''cm-2 s-1 TeV-1'',
          parmin = None, parmax = None, frozen = False\<rparr>,
         \<lparr>name = ''index'', val = 23 / 10, unit = [],
          parmin = None, parmax = None, frozen = False\<rparr>,
         \<lparr>name = ''reference'', val = 1, unit = ''TeV'',
          parmin = None, parmax = None, frozen = False\<rparr>,
         \<lparr>name = ''emin'', val = 1, unit = ''TeV'',
          parmin = None, parmax = None, frozen = False\<rparr>,
         \<lparr>name = ''emax'', val = 10, unit = ''TeV'',
          parmin = None, parmax = None, frozen = False\<rparr>,
         \<lparr>name = ''lambda_'', val = 1 / 4, unit = ''TeV-1'',
          parmin = None, parmax = None, frozen = False\<rparr>],
      covariance = None\<rparr>"

definition crab_spectrum :: xml where
  "crab_spectrum = Elem [(''@type'', ''PowerLaw'')] [(''parameter'', Many [])]"

text \<open>The error a parameter is assigned: zero when its name is not in the mapping, the
  converted error otherwise.\<close>

definition assigned_error :: "(string \<rightharpoonup> Quantity) \<Rightarrow> (Parameter \<Rightarrow> real) \<Rightarrow> Parameter \<Rightarrow> real" where
  "assigned_error errors conv p = (case errors (name p) of None \<Rightarrow> 0 | Some q \<Rightarrow> conv p)"

text \<open>The parameters and the error mapping of the \<^verbatim>\<open>set_parameter_errors\<close> example.\<close>

definition fit_parameters :: ParameterList where
  "fit_parameters = ParameterList_init
     [Parameter_init ''amplitude'' 10 ''cm-2 s-1'', Parameter_init ''index'' 2 []]"

definition fit_errors :: "string \<rightharpoonup> Quantity" where
  "fit_errors = [''amplitude'' \<mapsto> Quantity 1 ''cm-2 s-1'']"



section \<open>Properties\<close>

subsection \<open>Parameter.from_dict_xml\<close>

text \<open>
  C9. For a dict with the keys \<^verbatim>\<open>@name\<close> and \<^verbatim>\<open>@value\<close>, \<^verbatim>\<open>Parameter.from_dict_xml\<close>
  returns the parameter whose name is the \<^verbatim>\<open>@name\<close> string, whose value is the float
  coercion of the \<^verbatim>\<open>@value\<close> string and whose unit is the \<^verbatim>\<open>@unit\<close> string, the empty
  string when \<^verbatim>\<open>@unit\<close> is absent; bounds and \<^verbatim>\<open>frozen\<close> take their defaults.
\<close>

theorem from_dict_xml_fields:
  assumes "map_of as ''@name'' = Some n"
    and "map_of as ''@value'' = Some s"
    and "py_float B s = Inr v"
  shows "from_dict_xml B (Elem as cs) =
           Inr \<lparr>name = n, val = v,
                unit = (case map_of as ''@unit'' of None \<Rightarrow> [] | Some u \<Rightarrow> u),
                parmin = None, parmax = None, frozen = False\<rparr>"
  using assms by (simp add: Parameter_init_def)

text \<open>The example \<^verbatim>\<open>{'@name': 'Index', '@value': '-2.3', '@unit': 'TeV-1'}\<close>, and the same
  dict without its unit.\<close>

theorem from_dict_xml_fields_witness:
  "from_dict_xml sample_builtins
     (Elem [(''@name'', ''Index''), (''@value'', ''-2.3''), (''@unit'', ''TeV-1'')] []) =
     Inr \<lparr>name = ''Index'', val = - 23 / 10, unit = ''TeV-1'',
          parmin = None, parmax = None, frozen = False\<rparr>
   \<and> from_dict_xml sample_builtins (Elem [(''@name'', ''Index''), (''@value'', ''-2.3'')] []) =
     Inr \<lparr>name = ''Index'', val = - 23 / 10, unit = [],
          parmin = None, parmax = None, frozen = False\<rparr>"
  using from_dict_xml_fields [of "[(''@name'', ''Index''), (''@value'', ''-2.3''), (''@unit'', ''TeV-1'')]"
      "''Index''" "''-2.3''" sample_builtins "- 23 / 10" "[]"]
    from_dict_xml_fields [of "[(''@name'', ''Index''), (''@value'', ''-2.3'')]"
      "''Index''" "''-2.3''" sample_builtins "- 23 / 10" "[]"]
  by (simp add: sample_builtins_def sample_float_def)

subsection \<open>ParameterList.__getitem__\<close>

lemma getitem_loop_first:
  "i < length ps \<Longrightarrow> name (ps ! i) = n \<Longrightarrow> \<forall>j<i. name (ps ! j) \<noteq> n
     \<Longrightarrow> getitem_loop n ps = Some (ps ! i)"
proof (induction ps arbitrary: i)
  case Nil
  then show ?case by simp
next
  case (Cons p ps)
  show ?case
  proof (cases i)
    case 0
    with Cons.prems show ?thesis by simp
  next
    case (Suc k)
    with Cons.prems have "name p \<noteq> n" by auto
    moreover have "getitem_loop n ps = Some (ps ! k)"
      using Cons.prems Suc by (intro Cons.IH) auto
    ultimately show ?thesis using Suc by simp
  qed
qed

lemma getitem_loop_none: "\<forall>p\<in>set ps. name p \<noteq> n \<Longrightarrow> getitem_loop n ps = None"
  by (induction ps) auto

text \<open>
  C5. Indexing a parameter list by a name returns the first parameter of that name (the one
  at the least index whose name is equal); when no parameter has the name it fails with an
  \<^verbatim>\<open>IndexError\<close> whose message holds the name and the string representation of the list.
\<close>

theorem getitem_first_match:
  "(\<forall>i. i < length (parameters pl) \<and> name (parameters pl ! i) = n
         \<and> (\<forall>j<i. name (parameters pl ! j) \<noteq> n)
       \<longrightarrow> getitem B pl n = Inr (parameters pl ! i))
   \<and> ((\<forall>p\<in>set (parameters pl). name p \<noteq> n)
       \<longrightarrow> getitem B pl n =
             Inl (IndexError (''Parameter '' @ n @ '' not found for : '' @ ParameterList_str B pl)))"
  by (auto simp: getitem_def getitem_loop_first getitem_loop_none)

text \<open>Of two parameters named Sigma the first is returned; Nope is not found.\<close>

theorem getitem_first_match_witness:
  "getitem sample_builtins
     (ParameterList_init [Parameter_init ''GLON'' 1 ''deg'', Parameter_init ''Sigma'' 2 ''deg'',
                          Parameter_init ''Sigma'' 3 ''deg'']) ''Sigma''
     = Inr (Parameter_init ''Sigma'' 2 ''deg'')
   \<and> getitem sample_builtins (ParameterList_init [Parameter_init ''Sigma'' 2 ''deg'']) ''Nope''
     = Inl (IndexError (''Parameter Nope not found for : ''
         @ ParameterList_str sample_builtins (ParameterList_init [Parameter_init ''Sigma'' 2 ''deg''])))"
  using getitem_first_match [of "ParameterList_init [Parameter_init ''GLON'' 1 ''deg'',
        Parameter_init ''Sigma'' 2 ''deg'', Parameter_init ''Sigma'' 3 ''deg'']" "''Sigma''" sample_builtins]
    getitem_first_match [of "ParameterList_init [Parameter_init ''Sigma'' 2 ''deg'']" "''Nope''" sample_builtins]
  by (simp add: ParameterList_init_def Parameter_init_def getitem_def)

subsection \<open>SpatialModel.from_xml_dict\<close>

text \<open>
  C2. For a dict whose \<^verbatim>\<open>@type\<close> is one of the tags of a spatial variant,
  \<^verbatim>\<open>SpatialModel.from_xml_dict\<close> returns a model of that variant with an empty parameter
  list, whatever the children of the dict are: its \<^verbatim>\<open>parameter\<close> entries are not stored.
\<close>

theorem spatial_from_xml_dict_empty:
  assumes "map_of as ''@type'' = Some t" and "t \<in> set (spatial_xml_types c)"
  shows "SpatialModel_from_xml_dict (Elem as cs) = Inr (SpatialModel c (ParameterList_init []))
         \<and> (\<forall>m. SpatialModel_from_xml_dict (Elem as cs) = Inr m
               \<longrightarrow> spatial_class m = c \<and> parameters (spatial_parameters m) = [])"
  using assms by (cases c) (auto simp: SpatialModel_from_xml_dict_def ParameterList_init_def)

text \<open>A Gaussian with a Sigma parameter in the dict comes back without parameters.\<close>

theorem spatial_from_xml_dict_empty_witness:
  "SpatialModel_from_xml_dict
     (Elem [(''@type'', ''Gaussian'')]
        [(''parameter'', Many [Elem [(''@name'', ''Sigma''), (''@value'', ''0.3''), (''@unit'', ''deg'')] []])])
   = Inr (SpatialModel SpatialModelGauss \<lparr>parameters = [], covariance = None\<rparr>)"
  using spatial_from_xml_dict_empty [of "[(''@type'', ''Gaussian'')]" "''Gaussian''" SpatialModelGauss
      "[(''parameter'', Many [Elem [(''@name'', ''Sigma''), (''@value'', ''0.3''), (''@unit'', ''deg'')] []])]"]
  by (simp add: ParameterList_init_def)

subsection \<open>SpatialModelShell.from_gammacat\<close>

text \<open>
  C10. For catalog data with the quantities \<^verbatim>\<open>glon\<close>, \<^verbatim>\<open>glat\<close> and \<^verbatim>\<open>morph_sigma\<close>,
  \<^verbatim>\<open>SpatialModelShell.from_gammacat\<close> returns a shell whose parameters are GLON, GLAT,
  Radius and Width in this order, Radius with the value and unit of \<^verbatim>\<open>morph_sigma\<close> and
  Width 0 deg.
\<close>

theorem shell_from_gammacat_parameters:
  assumes "d ''glon'' = Some (CatQuantity (Quantity lv lu))"
    and "d ''glat'' = Some (CatQuantity (Quantity bv bu))"
    and "d ''morph_sigma'' = Some (CatQuantity (Quantity sv su))"
  shows "SpatialModelShell_from_gammacat d =
           Inr (SpatialModel SpatialModelShell
                  (\<lparr>parameters =
                      [\<lparr>name = ''GLON'', val = lv, unit = lu,
                        parmin = None, parmax = None, frozen = False\<rparr>,
                       \<lparr>name = ''GLAT'', val = bv, unit = bu,
                        parmin = None, parmax = None, frozen = False\<rparr>,
                       \<lparr>name = ''Radius'', val = sv, unit = su,
                        parmin = None, parmax = None, frozen = False\<rparr>,
                       \<lparr>name = ''Width'', val = 0, unit = ''deg'',
                        parmin = None, parmax = None, frozen = False\<rparr>],
                    covariance = None\<rparr>))"
  using assms
  by (simp add: SpatialModelShell_from_gammacat_def quantity_field_def ParameterList_init_def
      Parameter_init_def)

text \<open>The source with \<^verbatim>\<open>morph_sigma\<close> = 0.3 deg.\<close>

theorem shell_from_gammacat_parameters_witness:
  "SpatialModelShell_from_gammacat
     [''glon'' \<mapsto> CatQuantity (Quantity 120 ''deg''), ''glat'' \<mapsto> CatQuantity (Quantity 2 ''deg''),
      ''morph_sigma'' \<mapsto> CatQuantity (Quantity (3 / 10) ''deg'')] =
     Inr (SpatialModel SpatialModelShell
            (\<lparr>parameters =
                [\<lparr>name = ''GLON'', val = 120, unit = ''deg'',
                  parmin = None, parmax = None, frozen = False\<rparr>,
                 \<lparr>name = ''GLAT'', val = 2, unit = ''deg'',
                  parmin = None, parmax = None, frozen = False\<rparr>,
                 \<lparr>name = ''Radius'', val = 3 / 10, unit = ''deg'',
                  parmin = None, parmax = None, frozen = False\<rparr>,
                 \<lparr>name = ''Width'', val = 0, unit = ''deg'',
                  parmin = None, parmax = None, frozen = False\<rparr>],
              covariance = None\<rparr>))"
  using shell_from_gammacat_parameters [of "[''glon'' \<mapsto> CatQuantity (Quantity 120 ''deg''),
      ''glat'' \<mapsto> CatQuantity (Quantity 2 ''deg''),
      ''morph_sigma'' \<mapsto> CatQuantity (Quantity (3 / 10) ''deg'')]" 120 "''deg''" 2 "''deg''" "3 / 10" "''deg''"]
  by simp

subsection \<open>The catalog transforms of from_plist\<close>

text \<open>
  C3. \<^verbatim>\<open>SpectralModelPowerLaw.from_plist\<close> and \<^verbatim>\<open>SpectralModelPowerLaw2.from_plist\<close> give
  Index the negated value of the catalog parameter \<^verbatim>\<open>index\<close>, and
  \<^verbatim>\<open>SpectralModelExpCutoff.from_plist\<close> gives Cutoff the reciprocal of the value of
  \<^verbatim>\<open>lambda_\<close> (a non-zero float, as a reciprocal needs); each output parameter has the unit
  of the catalog parameter it is built from, unchanged. The exponential cutoff keeps the
  sign of the index.
\<close>

theorem from_plist_transforms:
  "(getitem B plist ''amplitude'' = Inr a \<and> getitem B plist ''index'' = Inr i
      \<and> getitem B plist ''reference'' = Inr r
    \<longrightarrow> SpectralModelPowerLaw_from_plist B plist =
          Inr (SpectralModel SpectralModelPowerLaw
               (\<lparr>parameters =
                   [\<lparr>name = ''Prefactor'', val = val a, unit = unit a,
                     parmin = None, parmax = None, frozen = False\<rparr>,
                    \<lparr>name = ''Index'', val = - val i, unit = unit i,
                     parmin = None, parmax = None, frozen = False\<rparr>,
                    \<lparr>name = ''Scale'', val = val r, unit = unit r,
                     parmin = None, parmax = None, frozen = False\<rparr>],
                 covariance = None\<rparr>)))
   \<and> (getitem B plist ''amplitude'' = Inr a \<and> getitem B plist ''index'' = Inr i
      \<and> getitem B plist ''emin'' = Inr lo \<and> getitem B plist ''emax'' = Inr hi
    \<longrightarrow> SpectralModelPowerLaw2_from_plist B plist =
          Inr (SpectralModel SpectralModelPowerLaw2
               (\<lparr>parameters =
                   [\<lparr>name = ''Integral'', val = val a, unit = unit a,
                     parmin = None, parmax = None, frozen = False\<rparr>,
                    \<lparr>name = ''Index'', val = - val i, unit = unit i,
                     parmin = None, parmax = None, frozen = False\<rparr>,
                    \<lparr>name = ''LowerLimit'', val = val lo, unit = unit lo,
                     parmin = None, parmax = None, frozen = False\<rparr>,
                    \<lparr>name = ''UpperLimit'', val = val hi, unit = unit hi,
                     parmin = None, parmax = None, frozen = False\<rparr>],
                 covariance = None\<rparr>)))
   \<and> (getitem B plist ''amplitude'' = Inr a \<and> getitem B plist ''index'' = Inr i
      \<and> getitem B plist ''lambda_'' = Inr l \<and> val l \<noteq> 0
      \<and> getitem B plist ''reference'' = Inr r
    \<longrightarrow> SpectralModelExpCutoff_from_plist B plist =
          Inr (SpectralModel SpectralModelExpCutoff
               (\<lparr>parameters =
                   [\<lparr>name = ''Prefactor'', val = val a, unit = unit a,
                     parmin = None, parmax = None, frozen = False\<rparr>,
                    \<lparr>name = ''Index'', val = val i, unit = unit i,
                     parmin = None, parmax = None, frozen = False\<rparr>,
                    \<lparr>name = ''Cutoff'', val = 1 / val l, unit = unit l,
                     parmin = None, parmax = None, frozen = False\<rparr>,
                    \<lparr>name = ''Scale'', val = val r, unit = unit r,
                     parmin = None, parmax = None, frozen = False\<rparr>],
                 covariance = None\<rparr>)))"
  by (simp add: SpectralModelPowerLaw_from_plist_def SpectralModelPowerLaw2_from_plist_def
      SpectralModelExpCutoff_from_plist_def ParameterList_init_def Parameter_init_def)

text \<open>The parameters of the sample catalog list, by name.\<close>

lemma catalog_plist_items:
  "getitem B catalog_plist ''amplitude'' =
     Inr \<lparr>name = ''amplitude'', val = 3, unit = ''cm-2 s-1 TeV-1'',
          parmin = None, parmax = None, frozen = False\<rparr>"
  "getitem B catalog_plist ''index'' =
     Inr \<lparr>name = ''index'', val = 23 / 10, unit = [],
          parmin = None, parmax = None, frozen = False\<rparr>"
  "getitem B catalog_plist ''reference'' =
     Inr \<lparr>name = ''reference'', val = 1, unit = ''TeV'',
          parmin = None, parmax = None, frozen = False\<rparr>"
  "getitem B catalog_plist ''emin'' =
     Inr \<lparr>name = ''emin'', val = 1, unit = ''TeV'',
          parmin = None, parmax = None, frozen = False\<rparr>"
  "getitem B catalog_plist ''emax'' =
     Inr \<lparr>name = ''emax'', val = 10, unit = ''TeV'',
          parmin = None, parmax = None, frozen = False\<rparr>"
  "getitem B catalog_plist ''lambda_'' =
     Inr \<lparr>name = ''lambda_'', val = 1 / 4, unit = ''TeV-1'',
          parmin = None, parmax = None, frozen = False\<rparr>"
  by (simp_all add: getitem_def catalog_plist_def)

text \<open>Index 2.3 becomes -2.3 in both power laws, \<^verbatim>\<open>lambda_\<close> 0.25 becomes Cutoff 4.\<close>

theorem from_plist_transforms_witness:
  "SpectralModelPowerLaw_from_plist sample_builtins catalog_plist =
     Inr (SpectralModel SpectralModelPowerLaw
          (\<lparr>parameters =
              [\<lparr>name = ''Prefactor'', val = 3, unit = ''cm-2 s-1 TeV-1'',
                parmin = None, parmax = None, frozen = False\<rparr>,
               \<lparr>name = ''Index'', val = - (23 / 10), unit = [],
                parmin = None, parmax = None, frozen = False\<rparr>,
               \<lparr>name = ''Scale'', val = 1, unit = ''TeV'',
                parmin = None, parmax = None, frozen = False\<rparr>],
            covariance = None\<rparr>))
   \<and> SpectralModelPowerLaw2_from_plist sample_builtins catalog_plist =
     Inr (SpectralModel SpectralModelPowerLaw2
          (\<lparr>parameters =
              [\<lparr>name = ''Integral'', val = 3, unit = ''cm-2 s-1 TeV-1'',
                parmin = None, parmax = None, frozen = False\<rparr>,
               \<lparr>name = ''Index'', val = - (23 / 10), unit = [],
                parmin = None, parmax = None, frozen = False\<rparr>,
               \<lparr>name = ''LowerLimit'', val = 1, unit = ''TeV'',
                parmin = None, parmax = None, frozen = False\<rparr>,
               \<lparr>name = ''UpperLimit'', val = 10, unit = ''TeV'',
                parmin = None, parmax = None, frozen = False\<rparr>],
            covariance = None\<rparr>))
   \<and> SpectralModelExpCutoff_from_plist sample_builtins catalog_plist =
     Inr (SpectralModel SpectralModelExpCutoff
          (\<lparr>parameters =
              [\<lparr>name = ''Prefactor'', val = 3, unit = ''cm-2 s-1 TeV-1'',
                parmin = None, parmax = None, frozen = False\<rparr>,
               \<lparr>name = ''Index'', val = 23 / 10, unit = [],
                parmin = None, parmax = None, frozen = False\<rparr>,
               \<lparr>name = ''Cutoff'', val = 4, unit = ''TeV-1'',
                parmin = None, parmax = None, frozen = False\<rparr>,
               \<lparr>name = ''Scale'', val = 1, unit = ''TeV'',
                parmin = None, parmax = None, frozen = False\<rparr>],
            covariance = None\<rparr>))"
  using from_plist_transforms [of sample_builtins catalog_plist
      "\<lparr>name = ''amplitude'', val = 3, unit = ''cm-2 s-1 TeV-1'',
        parmin = None, parmax = None, frozen = False\<rparr>"
      "\<lparr>name = ''index'', val = 23 / 10, unit = [],
        parmin = None, parmax = None, frozen = False\<rparr>"
      "\<lparr>name = ''reference'', val = 1, unit = ''TeV'',
        parmin = None, parmax = None, frozen = False\<rparr>"
      "\<lparr>name = ''emin'', val = 1, unit = ''TeV'',
        parmin = None, parmax = None, frozen = False\<rparr>"
      "\<lparr>name = ''emax'', val = 10, unit = ''TeV'',
        parmin = None, parmax = None, frozen = False\<rparr>"
      "\<lparr>name = ''lambda_'', val = 1 / 4, unit = ''TeV-1'',
        parmin = None, parmax = None, frozen = False\<rparr>"]
  by (simp add: catalog_plist_items)

subsection \<open>SpectralModel.from_xml_dict\<close>

text \<open>
  C4, as stated, fails: a dict with an unregistered \<^verbatim>\<open>@type\<close> does not always end in
  \<^verbatim>\<open>UnknownModelError\<close>. The parameters are read before the tag is compared, so a dict
  with no \<^verbatim>\<open>parameter\<close> entry ends in \<^verbatim>\<open>KeyError\<close>, and one whose \<^verbatim>\<open>parameter\<close> entry is
  a single dict (one child element) in \<^verbatim>\<open>AttributeError\<close>.
\<close>

theorem spectral_unknown_type_counterexample:
  "SpectralModel_from_xml_dict sample_builtins (Elem [(''@type'', ''Bogus'')] [])
     = Inl (KeyError ''parameter'')
   \<and> SpectralModel_from_xml_dict sample_builtins
       (Elem [(''@type'', ''Bogus'')]
          [(''parameter'', Elem [(''@name'', ''Value''), (''@value'', ''1'')] [])])
     = Inl AttributeError"
  by (simp add: SpectralModel_from_xml_dict_def from_list_of_dict_xml_def)

text \<open>
  C4, amended. For the tag PowerLaw and a \<^verbatim>\<open>parameter\<close> list of three name/value/unit
  triples whose values \<^verbatim>\<open>float\<close> accepts, \<^verbatim>\<open>SpectralModel.from_xml_dict\<close> returns a
  \<^verbatim>\<open>SpectralModelPowerLaw\<close> whose parameters are these triples in input order. For a tag
  that is none of the three registered ones and a \<^verbatim>\<open>parameter\<close> entry that
  \<^verbatim>\<open>from_list_of_dict_xml\<close> reads without error, it fails with \<^verbatim>\<open>UnknownModelError\<close>, and
  the message ends with the tag.
\<close>

theorem spectral_from_xml_dict_dispatch:
  "(map_of as ''@type'' = Some ''PowerLaw''
      \<and> map_of cs ''parameter'' =
          Some (Many [Elem [(''@name'', n1), (''@value'', s1), (''@unit'', u1)] c1,
                      Elem [(''@name'', n2), (''@value'', s2), (''@unit'', u2)] c2,
                      Elem [(''@name'', n3), (''@value'', s3), (''@unit'', u3)] c3])
      \<and> py_float B s1 = Inr v1 \<and> py_float B s2 = Inr v2 \<and> py_float B s3 = Inr v3
    \<longrightarrow> SpectralModel_from_xml_dict B (Elem as cs) =
          Inr (SpectralModel SpectralModelPowerLaw
               (\<lparr>parameters =
                   [\<lparr>name = n1, val = v1, unit = u1,
                     parmin = None, parmax = None, frozen = False\<rparr>,
                    \<lparr>name = n2, val = v2, unit = u2,
                     parmin = None, parmax = None, frozen = False\<rparr>,
                    \<lparr>name = n3, val = v3, unit = u3,
                     parmin = None, parmax = None, frozen = False\<rparr>],
                 covariance = None\<rparr>)))
   \<and> (map_of as ''@type'' = Some t
      \<and> t \<noteq> ''PowerLaw'' \<and> t \<noteq> ''PowerLaw2'' \<and> t \<noteq> ''ExpCutoff''
      \<and> map_of cs ''parameter'' = Some d \<and> from_list_of_dict_xml B d = Inr ps
    \<longrightarrow> SpectralModel_from_xml_dict B (Elem as cs) =
          Inl (UnknownModelError (''Unknown spatial model: '' @ t)))"
  by (simp add: SpectralModel_from_xml_dict_def from_list_of_dict_xml_def ParameterList_init_def
      Parameter_init_def)

text \<open>The Prefactor, Index, Scale example, and the tag Bogus with an empty parameter list.\<close>

theorem spectral_from_xml_dict_dispatch_witness:
  "SpectralModel_from_xml_dict sample_builtins
     (Elem [(''@type'', ''PowerLaw'')]
        [(''parameter'',
          Many [Elem [(''@name'', ''Prefactor''), (''@value'', ''1e-12''), (''@unit'', ''cm-2 s-1 TeV-1'')] [],
                Elem [(''@name'', ''Index''), (''@value'', ''-2.3''), (''@unit'', [])] [],
                Elem [(''@name'', ''Scale''), (''@value'', ''1''), (''@unit'', ''TeV'')] []])])
     = Inr (SpectralModel SpectralModelPowerLaw
            (\<lparr>parameters =
                [\<lparr>name = ''Prefactor'', val = 1 / 10 ^ 12, unit = ''cm-2 s-1 TeV-1'',
                  parmin = None, parmax = None, frozen = False\<rparr>,
                 \<lparr>name = ''Index'', val = - 23 / 10, unit = [],
                  parmin = None, parmax = None, frozen = False\<rparr>,
                 \<lparr>name = ''Scale'', val = 1, unit = ''TeV'',
                  parmin = None, parmax = None, frozen = False\<rparr>],
              covariance = None\<rparr>))
   \<and> SpectralModel_from_xml_dict sample_builtins
       (Elem [(''@type'', ''Bogus'')] [(''parameter'', Many [])])
     = Inl (UnknownModelError ''Unknown spatial model: Bogus'')"
  using spectral_from_xml_dict_dispatch [of "[(''@type'', ''PowerLaw'')]"
      "[(''parameter'',
          Many [Elem [(''@name'', ''Prefactor''), (''@value'', ''1e-12''), (''@unit'', ''cm-2 s-1 TeV-1'')] [],
                Elem [(''@name'', ''Index''), (''@value'', ''-2.3''), (''@unit'', [])] [],
                Elem [(''@name'', ''Scale''), (''@value'', ''1''), (''@unit'', ''TeV'')] []])]"
      "''Prefactor''" "''1e-12''" "''cm-2 s-1 TeV-1''" "[]"
      "''Index''" "''-2.3''" "[]" "[]" "''Scale''" "''1''" "''TeV''" "[]"
      sample_builtins "1 / 10 ^ 12" "- 23 / 10" 1 "''PowerLaw''" Null "ParameterList_init []"]
    spectral_from_xml_dict_dispatch [of "[(''@type'', ''Bogus'')]" "[(''parameter'', Many [])]"
      "[]" "[]" "[]" "[]" "[]" "[]" "[]" "[]" "[]" "[]" "[]" "[]"
      sample_builtins 0 0 0 "''Bogus''" "Many []" "ParameterList_init []"]
  by (simp add: sample_builtins_def sample_float_def from_list_of_dict_xml_def)

subsection \<open>SourceModel.from_xml_dict\<close>

text \<open>
  C8, as stated, fails: a source dict with neither \<^verbatim>\<open>radialModel\<close> nor \<^verbatim>\<open>spatialModel\<close>
  does not always end in the "No spatial / radial model found" error. The spectrum is built
  first, so an unregistered spectrum type ends in the error of the spectral dispatch, and a
  dict without \<^verbatim>\<open>spectrum\<close> in \<^verbatim>\<open>KeyError\<close>.
\<close>

theorem source_unknown_spatial_counterexample:
  "SourceModel_from_xml_dict sample_builtins
     (Elem [(''@name'', ''Crab''), (''@type'', ''PointSource'')]
        [(''spectrum'', Elem [(''@type'', ''LogParabola'')] [(''parameter'', Many [])])])
     = Inl (UnknownModelError ''Unknown spatial model: LogParabola'')
   \<and> SourceModel_from_xml_dict sample_builtins
       (Elem [(''@name'', ''Crab''), (''@type'', ''PointSource'')] [])
     = Inl (KeyError ''spectrum'')"
  by (simp add: SourceModel_from_xml_dict_def SpectralModel_from_xml_dict_def
      from_list_of_dict_xml_def)

text \<open>
  C8, amended. For a source dict with \<^verbatim>\<open>@name\<close>, \<^verbatim>\<open>@type\<close> and a \<^verbatim>\<open>spectrum\<close> entry from
  which \<^verbatim>\<open>SpectralModel.from_xml_dict\<close> builds a model: with a \<^verbatim>\<open>radialModel\<close> key the
  spatial model is built from that entry; without it and with a \<^verbatim>\<open>spatialModel\<close> key, from
  that entry; with neither, the call fails with \<^verbatim>\<open>UnknownModelError\<close> and the message
  "No spatial / radial model found for: " followed by the dict.
\<close>

theorem source_from_xml_dict_spatial_choice:
  assumes "map_of as ''@name'' = Some n"
    and "map_of as ''@type'' = Some t"
    and "map_of cs ''spectrum'' = Some sp"
    and "SpectralModel_from_xml_dict B sp = Inr spectral"
  shows "(\<forall>r. map_of cs ''radialModel'' = Some r
            \<longrightarrow> SourceModel_from_xml_dict B (Elem as cs) =
                  and_then (SpatialModel_from_xml_dict r) (\<lambda>spatial.
                    Inr \<lparr>source_name = n, source_type = t,
                         spatial_model = spatial, spectral_model = spectral\<rparr>))
         \<and> (\<forall>r. map_of cs ''radialModel'' = None \<and> map_of cs ''spatialModel'' = Some r
            \<longrightarrow> SourceModel_from_xml_dict B (Elem as cs) =
                  and_then (SpatialModel_from_xml_dict r) (\<lambda>spatial.
                    Inr \<lparr>source_name = n, source_type = t,
                         spatial_model = spatial, spectral_model = spectral\<rparr>))
         \<and> (map_of cs ''radialModel'' = None \<and> map_of cs ''spatialModel'' = None
            \<longrightarrow> SourceModel_from_xml_dict B (Elem as cs) =
                  Inl (UnknownModelError
                         (''No spatial / radial model found for: '' @ str_dict B (Elem as cs))))"
  using assms by (simp add: SourceModel_from_xml_dict_def)

text \<open>The sample spectrum is a power law without parameters.\<close>

lemma crab_spectrum_model:
  "SpectralModel_from_xml_dict B crab_spectrum =
     Inr (SpectralModel SpectralModelPowerLaw (ParameterList_init []))"
  by (simp add: crab_spectrum_def SpectralModel_from_xml_dict_def from_list_of_dict_xml_def)

text \<open>With both keys the radial model wins; with \<^verbatim>\<open>spatialModel\<close> alone it is used; with
  neither the error is raised.\<close>

theorem source_from_xml_dict_spatial_choice_witness:
  "SourceModel_from_xml_dict sample_builtins
     (Elem [(''@name'', ''Crab''), (''@type'', ''PointSource'')]
        [(''spectrum'', crab_spectrum),
         (''spatialModel'', Elem [(''@type'', ''Point'')] []),
         (''radialModel'', Elem [(''@type'', ''Shell'')] [])])
     = Inr \<lparr>source_name = ''Crab'', source_type = ''PointSource'',
            spatial_model = SpatialModel SpatialModelShell (ParameterList_init []),
            spectral_model = SpectralModel SpectralModelPowerLaw (ParameterList_init [])\<rparr>
   \<and> SourceModel_from_xml_dict sample_builtins
       (Elem [(''@name'', ''Crab''), (''@type'', ''PointSource'')]
          [(''spectrum'', crab_spectrum), (''spatialModel'', Elem [(''@type'', ''Point'')] [])])
     = Inr \<lparr>source_name = ''Crab'', source_type = ''PointSource'',
            spatial_model = SpatialModel SpatialModelPoint (ParameterList_init []),
            spectral_model = SpectralModel SpectralModelPowerLaw (ParameterList_init [])\<rparr>
   \<and> SourceModel_from_xml_dict sample_builtins
       (Elem [(''@name'', ''Crab''), (''@type'', ''PointSource'')] [(''spectrum'', crab_spectrum)])
     = Inl (UnknownModelError
         (''No spatial / radial model found for: '' @ str_dict sample_builtins
            (Elem [(''@name'', ''Crab''), (''@type'', ''PointSource'')] [(''spectrum'', crab_spectrum)])))"
  using source_from_xml_dict_spatial_choice [of "[(''@name'', ''Crab''), (''@type'', ''PointSource'')]"
      "''Crab''" "''PointSource''"
      "[(''spectrum'', crab_spectrum), (''spatialModel'', Elem [(''@type'', ''Point'')] []),
         (''radialModel'', Elem [(''@type'', ''Shell'')] [])]"
      crab_spectrum sample_builtins "SpectralModel SpectralModelPowerLaw (ParameterList_init [])"]
    source_from_xml_dict_spatial_choice [of "[(''@name'', ''Crab''), (''@type'', ''PointSource'')]"
      "''Crab''" "''PointSource''"
      "[(''spectrum'', crab_spectrum), (''spatialModel'', Elem [(''@type'', ''Point'')] [])]"
      crab_spectrum sample_builtins "SpectralModel SpectralModelPowerLaw (ParameterList_init [])"]
    source_from_xml_dict_spatial_choice [of "[(''@name'', ''Crab''), (''@type'', ''PointSource'')]"
      "''Crab''" "''PointSource''" "[(''spectrum'', crab_spectrum)]"
      crab_spectrum sample_builtins "SpectralModel SpectralModelPowerLaw (ParameterList_init [])"]
  by (simp add: crab_spectrum_model SpatialModel_from_xml_dict_def)

subsection \<open>ParameterList.set_parameter_errors\<close>

text \<open>A loop whose every step succeeds is a map.\<close>

lemma for_each_map:
  "\<forall>x\<in>set xs. f x = Inr (g x) \<Longrightarrow> for_each f xs = Inr (map g xs)"
  by (induction xs) auto

text \<open>The shape and the entries of \<^verbatim>\<open>np.diag(values) ** 2\<close>.\<close>

lemma np_diag_length: "length (np_square (np_diag vs)) = length vs"
  by (simp add: np_square_def np_diag_def)

lemma np_diag_nth:
  "i < length vs \<Longrightarrow> j < length vs \<Longrightarrow>
     length (np_square (np_diag vs) ! i) = length vs
     \<and> np_square (np_diag vs) ! i ! j = (if i = j then (vs ! i)\<^sup>2 else 0)"
  by (simp add: np_square_def np_diag_def power2_eq_square)

text \<open>
  C6. \<^verbatim>\<open>set_parameter_errors\<close> sets the covariance to the diagonal matrix whose i-th
  diagonal entry is the square of the error of the i-th parameter converted to the unit of
  that parameter, a parameter absent from the mapping having zero error. The hypotheses say
  what the conversion of the units library gives: \<open>conv p\<close> is the value of the error of
  \<open>p\<close> after \<^verbatim>\<open>.to(par.unit)\<close>, every parameter unit is one \<^verbatim>\<open>u.Unit\<close> accepts, and the
  zero quantity of a unit converts to zero.
\<close>

theorem set_parameter_errors_diagonal:
  assumes present: "\<forall>p\<in>set (parameters pl). \<forall>q. errors (name p) = Some q \<longrightarrow>
      (\<exists>u. u_Unit B (unit p) = Inr u) \<and> (\<exists>q'. q_to B q (unit p) = Inr q' \<and> qvalue q' = conv p)"
    and absent: "\<forall>p\<in>set (parameters pl). errors (name p) = None \<longrightarrow>
      (\<exists>u q'. u_Unit B (unit p) = Inr u \<and> q_to B (Quantity 0 u) (unit p) = Inr q' \<and> qvalue q' = 0)"
  shows "\<exists>m. set_parameter_errors B pl errors = Inr (pl\<lparr>covariance := Some m\<rparr>)
           \<and> length m = length (parameters pl)
           \<and> (\<forall>i<length (parameters pl). length (m ! i) = length (parameters pl)
                \<and> (\<forall>j<length (parameters pl).
                      m ! i ! j =
                        (if i = j then (assigned_error errors conv (parameters pl ! i))\<^sup>2 else 0)))"
proof -
  let ?ps = "parameters pl"
  let ?e = "assigned_error errors conv"
  have "\<forall>p\<in>set ?ps. error_value B errors p = Inr (?e p)"
  proof
    fix p assume p: "p \<in> set ?ps"
    show "error_value B errors p = Inr (?e p)"
    proof (cases "errors (name p)")
      case None
      with absent p obtain u q' where "u_Unit B (unit p) = Inr u"
        "q_to B (Quantity 0 u) (unit p) = Inr q'" "qvalue q' = 0" by blast
      with None show ?thesis by (simp add: error_value_def assigned_error_def)
    next
      case (Some q)
      with present p obtain u q' where "u_Unit B (unit p) = Inr u"
        "q_to B q (unit p) = Inr q'" "qvalue q' = conv p" by blast
      with Some show ?thesis by (simp add: error_value_def assigned_error_def)
    qed
  qed
  then have "for_each (error_value B errors) ?ps = Inr (map ?e ?ps)"
    by (rule for_each_map)
  then have res: "set_parameter_errors B pl errors =
      Inr (pl\<lparr>covariance := Some (np_square (np_diag (map ?e ?ps)))\<rparr>)"
    by (simp add: set_parameter_errors_def)
  show ?thesis
  proof (intro exI conjI allI impI)
    show "set_parameter_errors B pl errors =
        Inr (pl\<lparr>covariance := Some (np_square (np_diag (map ?e ?ps)))\<rparr>)" by (rule res)
    show "length (np_square (np_diag (map ?e ?ps))) = length ?ps"
      by (simp add: np_diag_length)
  next
    fix i assume "i < length ?ps"
    then show "length (np_square (np_diag (map ?e ?ps)) ! i) = length ?ps"
      using np_diag_nth [of i "map ?e ?ps" i] by simp
  next
    fix i j assume "i < length ?ps" "j < length ?ps"
    then show "np_square (np_diag (map ?e ?ps)) ! i ! j = (if i = j then (?e (?ps ! i))\<^sup>2 else 0)"
      using np_diag_nth [of i "map ?e ?ps" j] by simp
  qed
qed

text \<open>The indices of a matrix of two rows.\<close>

lemma upt_2: "[0 ..< 2] = [0, Suc 0]"
  by (simp add: upt_rec)

text \<open>The example: amplitude 10 cm-2 s-1 and index 2, errors \<^verbatim>\<open>{amplitude: 1 cm-2 s-1}\<close>,
  covariance diag([1, 0]).\<close>

theorem set_parameter_errors_diagonal_witness:
  "set_parameter_errors sample_builtins fit_parameters fit_errors =
     Inr (fit_parameters\<lparr>covariance := Some [[1, 0], [0, 0]]\<rparr>)"
proof -
  have present: "\<forall>p\<in>set (parameters fit_parameters). \<forall>q. fit_errors (name p) = Some q \<longrightarrow>
      (\<exists>u. u_Unit sample_builtins (unit p) = Inr u)
      \<and> (\<exists>q'. q_to sample_builtins q (unit p) = Inr q' \<and> qvalue q' = (\<lambda>p. 1) p)"
    by (simp add: fit_parameters_def fit_errors_def ParameterList_init_def Parameter_init_def
        sample_builtins_def sample_to_def)
  have absent: "\<forall>p\<in>set (parameters fit_parameters). fit_errors (name p) = None \<longrightarrow>
      (\<exists>u q'. u_Unit sample_builtins (unit p) = Inr u
         \<and> q_to sample_builtins (Quantity 0 u) (unit p) = Inr q' \<and> qvalue q' = 0)"
    by (simp add: fit_parameters_def fit_errors_def ParameterList_init_def Parameter_init_def
        sample_builtins_def sample_to_def)
  from set_parameter_errors_diagonal [OF present absent] obtain m where
    m: "set_parameter_errors sample_builtins fit_parameters fit_errors =
          Inr (fit_parameters\<lparr>covariance := Some m\<rparr>)"
    by blast
  have "set_parameter_errors sample_builtins fit_parameters fit_errors =
      Inr (fit_parameters\<lparr>covariance := Some [[1, 0], [0, 0]]\<rparr>)"
    by (simp add: set_parameter_errors_def error_value_def fit_parameters_def fit_errors_def
        ParameterList_init_def Parameter_init_def sample_builtins_def sample_to_def
        np_square_def np_diag_def upt_2)
  with m show ?thesis by simp
qed

subsection \<open>ParameterList._ufloats\<close>







subsection \<open>The round trip through XML\<close>

text \<open>A loop that succeeds has succeeded at every element.\<close>

lemma for_each_Inr:
  "for_each f xs = Inr ys \<Longrightarrow> list_all2 (\<lambda>x y. f x = Inr y) xs ys"
proof (induction xs arbitrary: ys)
  case Nil
  then show ?case by simp
next
  case (Cons x xs)
  from Cons.prems obtain y where y: "f x = Inr y"
    by (cases "f x") auto
  with Cons.prems obtain zs where zs: "for_each f xs = Inr zs"
    by (cases "for_each f xs") auto
  with y Cons.prems have "ys = y # zs" by simp
  with y zs Cons.IH show ?case by simp
qed

text \<open>Whatever \<^verbatim>\<open>SpatialModel.from_xml_dict\<close> returns has no parameters; so has the spatial
  model of every source that \<^verbatim>\<open>SourceModel.from_xml_dict\<close> and \<^verbatim>\<open>from_xml\<close> return, for
  every parser.\<close>

lemma spatial_from_xml_dict_no_parameters:
  assumes "SpatialModel_from_xml_dict d = Inr m"
  shows "parameters (spatial_parameters m) = []"
proof (cases "attr d ''@type''")
  case (Inl e)
  with assms show ?thesis by (simp add: SpatialModel_from_xml_dict_def)
next
  case (Inr t)
  have "m = SpatialModel SpatialModelPoint (ParameterList_init [])
      \<or> m = SpatialModel SpatialModelGauss (ParameterList_init [])
      \<or> m = SpatialModel SpatialModelShell (ParameterList_init [])"
  proof (cases "t \<in> set (spatial_xml_types SpatialModelPoint)")
    case True
    with assms Inr show ?thesis unfolding SpatialModel_from_xml_dict_def by simp
  next
    case f1: False
    show ?thesis
    proof (cases "t \<in> set (spatial_xml_types SpatialModelGauss)")
      case True
      with assms Inr f1 show ?thesis unfolding SpatialModel_from_xml_dict_def by simp
    next
      case f2: False
      show ?thesis
      proof (cases "t \<in> set (spatial_xml_types SpatialModelShell)")
        case True
        with assms Inr f1 f2 show ?thesis unfolding SpatialModel_from_xml_dict_def by simp
      next
        case False
        with assms Inr f1 f2 show ?thesis unfolding SpatialModel_from_xml_dict_def by simp
      qed
    qed
  qed
  then show ?thesis by (auto simp: ParameterList_init_def)
qed

lemma and_then_InrE:
  assumes "and_then r f = Inr y"
  obtains x where "r = Inr x" and "f x = Inr y"
  using assms by (cases r) auto

lemma spatial_choice_no_parameters:
  assumes "(if a then and_then x SpatialModel_from_xml_dict
            else if b then and_then y SpatialModel_from_xml_dict else Inl e) = Inr m"
  shows "parameters (spatial_parameters m) = []"
proof (cases a)
  case True
  with assms have "and_then x SpatialModel_from_xml_dict = Inr m" by simp
  then show ?thesis
    by (elim and_then_InrE) (rule spatial_from_xml_dict_no_parameters)
next
  case False
  show ?thesis
  proof (cases b)
    case True
    with False assms have "and_then y SpatialModel_from_xml_dict = Inr m" by simp
    then show ?thesis
      by (elim and_then_InrE) (rule spatial_from_xml_dict_no_parameters)
  next
    case b: False
    with False assms show ?thesis by simp
  qed
qed

lemma source_from_xml_dict_no_spatial_parameters:
  assumes "SourceModel_from_xml_dict B d = Inr s"
  shows "parameters (spatial_parameters (spatial_model s)) = []"
proof -
  from assms obtain n where
    "and_then (attr d ''@type'') (\<lambda>t.
     and_then (item d ''spectrum'') (\<lambda>sp.
     and_then (SpectralModel_from_xml_dict B sp) (\<lambda>spectral.
     and_then
       (if has_child d ''radialModel''
          then and_then (item d ''radialModel'') SpatialModel_from_xml_dict
        else if has_child d ''spatialModel''
          then and_then (item d ''spatialModel'') SpatialModel_from_xml_dict
        else Inl (UnknownModelError
               (''No spatial / radial model found for: '' @ str_dict B d)))
       (\<lambda>spatial.
     Inr \<lparr>source_name = n, source_type = t,
          spatial_model = spatial, spectral_model = spectral\<rparr>)))) = Inr s"
    unfolding SourceModel_from_xml_dict_def by (rule and_then_InrE)
  then obtain t where
    "and_then (item d ''spectrum'') (\<lambda>sp.
     and_then (SpectralModel_from_xml_dict B sp) (\<lambda>spectral.
     and_then
       (if has_child d ''radialModel''
          then and_then (item d ''radialModel'') SpatialModel_from_xml_dict
        else if has_child d ''spatialModel''
          then and_then (item d ''spatialModel'') SpatialModel_from_xml_dict
        else Inl (UnknownModelError
               (''No spatial / radial model found for: '' @ str_dict B d)))
       (\<lambda>spatial.
     Inr \<lparr>source_name = n, source_type = t,
          spatial_model = spatial, spectral_model = spectral\<rparr>))) = Inr s"
    by (rule and_then_InrE)
  then obtain sp where
    "and_then (SpectralModel_from_xml_dict B sp) (\<lambda>spectral.
     and_then
       (if has_child d ''radialModel''
          then and_then (item d ''radialModel'') SpatialModel_from_xml_dict
        else if has_child d ''spatialModel''
          then and_then (item d ''spatialModel'') SpatialModel_from_xml_dict
        else Inl (UnknownModelError
               (''No spatial / radial model found for: '' @ str_dict B d)))
       (\<lambda>spatial.
     Inr \<lparr>source_name = n, source_type = t,
          spatial_model = spatial, spectral_model = spectral\<rparr>)) = Inr s"
    by (rule and_then_InrE)
  then obtain spectral where
    "and_then
       (if has_child d ''radialModel''
          then and_then (item d ''radialModel'') SpatialModel_from_xml_dict
        else if has_child d ''spatialModel''
          then and_then (item d ''spatialModel'') SpatialModel_from_xml_dict
        else Inl (UnknownModelError
               (''No spatial / radial model found for: '' @ str_dict B d)))
       (\<lambda>spatial.
     Inr \<lparr>source_name = n, source_type = t,
          spatial_model = spatial, spectral_model = spectral\<rparr>) = Inr s"
    by (rule and_then_InrE)
  then obtain spatial where
    sel: "(if has_child d ''radialModel''
          then and_then (item d ''radialModel'') SpatialModel_from_xml_dict
        else if has_child d ''spatialModel''
          then and_then (item d ''spatialModel'') SpatialModel_from_xml_dict
        else Inl (UnknownModelError
               (''No spatial / radial model found for: '' @ str_dict B d))) = Inr spatial"
    and s: "Inr \<lparr>source_name = n, source_type = t,
          spatial_model = spatial, spectral_model = spectral\<rparr> = (Inr s :: error + SourceModel)"
    by (rule and_then_InrE)
  from sel have "parameters (spatial_parameters spatial) = []"
    by (rule spatial_choice_no_parameters)
  moreover from s have "spatial_model s = spatial" by auto
  ultimately show ?thesis by simp
qed

lemma from_xml_no_spatial_parameters:
  assumes "from_xml B x = Inr l"
  shows "\<forall>s\<in>set (source_list l). parameters (spatial_parameters (spatial_model s)) = []"
proof -
  from assms obtain d where "from_list_of_dict B d = Inr l"
    unfolding from_xml_def by (elim and_then_InrE)
  then obtain xs where "for_each (SourceModel_from_xml_dict B) xs = Inr (source_list l)"
    unfolding from_list_of_dict_def by (elim and_then_InrE) auto
  then have "list_all2 (\<lambda>x s. SourceModel_from_xml_dict B x = Inr s) xs (source_list l)"
    by (rule for_each_Inr)
  then have "\<forall>s\<in>set (source_list l). \<exists>x. SourceModel_from_xml_dict B x = Inr s"
    by (induction rule: list_all2_induct) auto
  then show ?thesis
    using source_from_xml_dict_no_spatial_parameters by blast
qed

lemma crab_has_spatial_parameters:
  "triples (spatial_parameters (spatial_model crab)) \<noteq> []"
  by (simp add: triples_def crab_def ParameterList_init_def)

text \<open>
  C1 fails on the code. The claim: \<^verbatim>\<open>from_xml(to_xml(lib))\<close> reconstructs the sources of
  \<open>lib\<close> with identical name, type and parameter triples of the spectral and of the spatial
  model. For the library of one point source with its GLON and GLAT parameters, no parser
  makes \<^verbatim>\<open>from_xml\<close> return a library that agrees with it: \<^verbatim>\<open>to_xml\<close> writes the spatial
  parameters, and \<^verbatim>\<open>SpatialModel.from_xml_dict\<close> builds every spatial model with
  \<^verbatim>\<open>parameters=[]\<close>, where \<^verbatim>\<open>SpectralModel.from_xml_dict\<close> reads them.
\<close>

theorem roundtrip_loses_spatial_parameters:
  "\<not> (\<exists>l. from_xml B (to_xml B crab_library title header) = Inr l \<and> reconstructs crab_library l)"
proof
  assume "\<exists>l. from_xml B (to_xml B crab_library title header) = Inr l \<and> reconstructs crab_library l"
  then obtain l where l: "from_xml B (to_xml B crab_library title header) = Inr l"
    and r: "reconstructs crab_library l" by blast
  from r have "list_all2 same_source [crab] (source_list l)"
    by (simp add: reconstructs_def crab_library_def)
  then obtain s where s: "s \<in> set (source_list l)" and same: "same_source crab s"
    by (auto simp: list_all2_Cons1)
  from l have "\<forall>s\<in>set (source_list l). parameters (spatial_parameters (spatial_model s)) = []"
    by (rule from_xml_no_spatial_parameters)
  with s have "parameters (spatial_parameters (spatial_model s)) = []" by blast
  then have "triples (spatial_parameters (spatial_model s)) = []"
    by (simp add: triples_def)
  moreover from same have "triples (spatial_parameters (spatial_model s))
      = triples (spatial_parameters (spatial_model crab))"
    by (simp add: same_source_def)
  ultimately show False using crab_has_spatial_parameters by simp
qed

end
